theory Spec2Isabelle
  imports Complex_Main "HOL-Library.AList"
begin

section \<open>Python strings\<close>

text \<open>
  Strings are lists of characters. The case mapping covers the ASCII letters; the
  other characters are left as they are.
\<close>

definition endswith :: "string \<Rightarrow> string \<Rightarrow> bool" where
  "endswith s suf = (length suf \<le> length s \<and> drop (length s - length suf) s = suf)"

text \<open>
  \<^verbatim>\<open>s.replace(old, new)\<close>: the occurrences of \<open>old\<close> are found from left to right
  and do not overlap. With an empty \<open>old\<close> Python puts \<open>new\<close> before every character
  and at the end.
\<close>

fun replace_from :: "string \<Rightarrow> string \<Rightarrow> string \<Rightarrow> string" where
  "replace_from old new [] = []"
| "replace_from old new (c # cs) =
     (if take (length old) (c # cs) = old
      then new @ replace_from old new (drop (length old - 1) cs)
      else c # replace_from old new cs)"

definition replace :: "string \<Rightarrow> string \<Rightarrow> string \<Rightarrow> string" where
  "replace s old new =
     (if old = [] then new @ concat (map (\<lambda>c. c # new) s)
      else replace_from old new s)"

definition lower_char :: "char \<Rightarrow> char" where
  "lower_char c =
     (let n = (of_char c :: nat) in if 65 \<le> n \<and> n \<le> 90 then char_of (n + 32) else c)"

definition lower :: "string \<Rightarrow> string" where
  "lower s = map lower_char s"

definition digit_char :: "nat \<Rightarrow> char" where
  "digit_char d = ''0123456789'' ! d"

text \<open>\<^verbatim>\<open>str(n)\<close> of a natural number: its decimal digits.\<close>

fun str_nat :: "nat \<Rightarrow> string" where
  "str_nat n = (if n < 10 then [digit_char n] else str_nat (n div 10) @ [digit_char (n mod 10)])"

declare str_nat.simps [simp del]

text \<open>\<^verbatim>\<open>sep.join(parts)\<close>.\<close>

fun join :: "string \<Rightarrow> string list \<Rightarrow> string" where
  "join sep [] = []"
| "join sep [p] = p"
| "join sep (p # q # ps) = p @ sep @ join sep (q # ps)"

text \<open>A text between single quotes.\<close>

definition quoted :: "string \<Rightarrow> string" where
  "quoted s = [CHR 0x27] @ s @ [CHR 0x27]"

section \<open>Collection naming\<close>

text \<open>
  Line 130 of \<^verbatim>\<open>main.py\<close>:
  \<^verbatim>\<open>file.filename.replace('.csv', '').replace(' ', '_').lower()\<close>.
\<close>

definition derive_collection_name :: "string \<Rightarrow> string" where
  "derive_collection_name filename = lower (replace (replace filename ''.csv'' '''') '' '' ''_'')"

text \<open>
  What the specification describes: the filename without its trailing extension,
  lower-cased, spaces replaced by underscores, the interior otherwise kept.
\<close>

definition strip_extension_name :: "string \<Rightarrow> string" where
  "strip_extension_name filename =
     map (\<lambda>c. if c = CHR '' '' then CHR ''_'' else c)
       (lower (take (length filename - 4) filename))"

section \<open>Exceptions and HTTP outcomes\<close>

text \<open>
  \<open>HTTPException\<close> is a subclass of \<open>Exception\<close>; \<open>Error\<close> stands for every other
  exception, with the text that \<^verbatim>\<open>str(e)\<close> gives. For an \<open>HTTPException\<close>
  \<^verbatim>\<open>str(e)\<close> is the status code, a colon and the detail.
\<close>

datatype exc = HTTPException nat string | Error string

fun str_exc :: "exc \<Rightarrow> string" where
  "str_exc (HTTPException status detail) = str_nat status @ '': '' @ detail"
| "str_exc (Error msg) = msg"

text \<open>What a handler does: it returns a body, or an exception leaves it.\<close>

datatype 'a outcome = Return 'a | Raise exc

text \<open>
  The status the framework answers with: 200 for a returned body, the status of an
  \<open>HTTPException\<close>, and 500 for any other exception that leaves the handler.
\<close>

fun http_status :: "'a outcome \<Rightarrow> nat" where
  "http_status (Return b) = 200"
| "http_status (Raise (HTTPException status detail)) = status"
| "http_status (Raise (Error msg)) = 500"

section \<open>JSON values\<close>

text \<open>
  The value \<^verbatim>\<open>request.json()\<close> delivers. An object is held as the list of its
  items, keys distinct (the parser has resolved duplicates). A number is held by its
  value.
\<close>

datatype json =
    JNull
  | JBool bool
  | JNum rat
  | JStr string
  | JArr "json list"
  | JObj "(string \<times> json) list"

text \<open>Python's truth value: \<^verbatim>\<open>not x\<close> is \<open>\<not> truthy x\<close>.\<close>

fun truthy :: "json \<Rightarrow> bool" where
  "truthy JNull = False"
| "truthy (JBool b) = b"
| "truthy (JNum q) = (q \<noteq> 0)"
| "truthy (JStr s) = (s \<noteq> [])"
| "truthy (JArr xs) = (xs \<noteq> [])"
| "truthy (JObj kvs) = (kvs \<noteq> [])"

text \<open>
  \<^verbatim>\<open>data.get(key, default)\<close>: only a dict has the method; on any other value the
  attribute lookup raises \<open>AttributeError\<close>.
\<close>

fun dict_get :: "json \<Rightarrow> string \<Rightarrow> json \<Rightarrow> exc + json" where
  "dict_get (JObj kvs) key dflt = Inr (case map_of kvs key of None \<Rightarrow> dflt | Some v \<Rightarrow> v)"
| "dict_get v key dflt = Inl (Error (''object has no attribute '' @ quoted ''get''))"

section \<open>The vector store\<close>

text \<open>
  The store is an external service. It holds named collections, in listing order;
  a collection holds records of identifier, embedding, document and metadata. A
  metadata mapping is a dict of strings, held as the list of its items.
\<close>

type_synonym metadata = "(string \<times> string) list"

record 'e stored =
  rec_id :: string
  rec_embedding :: 'e
  rec_document :: string
  rec_metadata :: metadata

type_synonym 'e store = "(string \<times> 'e stored list) list"

text \<open>The calls made to the embedding provider and to the store, in order.\<close>

datatype call =
    ListCollections
  | CreateCollection string
  | GetCollection json
  | Encode "json list"
  | Add string nat
  | Query string nat

text \<open>
  The state a request runs in: the store, the number of identifiers \<^verbatim>\<open>uuid.uuid4()\<close>
  has handed out, and the calls made so far.
\<close>

record 'e world =
  store :: "'e store"
  uuid_count :: nat
  calls :: "call list"

definition log_call :: "call \<Rightarrow> 'e world \<Rightarrow> 'e world" where
  "log_call c w = w\<lparr>calls := calls w @ [c]\<rparr>"

definition list_collections :: "'e world \<Rightarrow> string list \<times> 'e world" where
  "list_collections w = (map fst (store w), log_call ListCollections w)"

text \<open>
  \<^verbatim>\<open>create_collection\<close> raises when the store does not accept the name (its check
  of a name is given as \<open>accepts\<close>) or when the name is taken.
\<close>

definition create_collection ::
  "(string \<Rightarrow> bool) \<Rightarrow> string \<Rightarrow> 'e world \<Rightarrow> (exc + string) \<times> 'e world" where
  "create_collection accepts name w =
     (let w1 = log_call (CreateCollection name) w in
      if \<not> accepts name
      then (Inl (Error (''Expected a valid collection name, got '' @ name)), w1)
      else if name \<in> set (map fst (store w1))
      then (Inl (Error (''Collection '' @ name @ '' already exists'')), w1)
      else (Inr name, w1\<lparr>store := store w1 @ [(name, [])]\<rparr>))"

text \<open>\<^verbatim>\<open>get_collection\<close> raises when the name is not a string or names no collection.\<close>

definition get_collection :: "json \<Rightarrow> 'e world \<Rightarrow> (exc + string) \<times> 'e world" where
  "get_collection name w =
     (let w1 = log_call (GetCollection name) w in
      case name of
        JStr n \<Rightarrow>
          (if n \<in> set (map fst (store w1)) then (Inr n, w1)
           else (Inl (Error (''Collection '' @ n @ '' does not exist'')), w1))
      | _ \<Rightarrow> (Inl (Error ''Expected collection name to be a str''), w1))"

text \<open>
  \<^verbatim>\<open>collection.add\<close> refuses the whole batch when there is no identifier, when
  two identifiers of the batch are equal, when the four lists differ in length, or
  when a metadata dict is empty; otherwise the records are appended to the
  collection. An identifier that the collection holds already is not looked for:
  the identifiers of the uploads are new values of \<^verbatim>\<open>uuid.uuid4()\<close>.
\<close>

definition make_records ::
  "string list \<Rightarrow> 'e list \<Rightarrow> string list \<Rightarrow> metadata list \<Rightarrow> 'e stored list" where
  "make_records ids embeddings documents metadatas =
     map (\<lambda>(i, e, d, m). \<lparr>rec_id = i, rec_embedding = e, rec_document = d, rec_metadata = m\<rparr>)
       (zip ids (zip embeddings (zip documents metadatas)))"

definition collection_add ::
  "string \<Rightarrow> 'e list \<Rightarrow> string list \<Rightarrow> metadata list \<Rightarrow> string list \<Rightarrow> 'e world
     \<Rightarrow> (exc + unit) \<times> 'e world" where
  "collection_add name embeddings documents metadatas ids w =
     (let w1 = log_call (Add name (length ids)) w in
      if ids = [] then (Inl (Error ''Expected IDs to be a non-empty list''), w1)
      else if \<not> distinct ids then (Inl (Error ''Expected IDs to be unique''), w1)
      else if length embeddings \<noteq> length ids \<or> length documents \<noteq> length ids
           \<or> length metadatas \<noteq> length ids
      then (Inl (Error ''Unequal lengths''), w1)
      else if [] \<in> set metadatas
      then (Inl (Error ''Expected metadata to be a non-empty dict''), w1)
      else case map_of (store w1) name of
             None \<Rightarrow> (Inl (Error (''Collection '' @ name @ '' does not exist'')), w1)
           | Some recs \<Rightarrow>
               (Inr (), w1\<lparr>store := AList.update name
                    (recs @ make_records ids embeddings documents metadatas) (store w1)\<rparr>))"

definition collection_count :: "'e world \<Rightarrow> string \<Rightarrow> nat" where
  "collection_count w name = (case map_of (store w) name of None \<Rightarrow> 0 | Some recs \<Rightarrow> length recs)"

section \<open>The dependencies of the two pipelines\<close>

text \<open>
  A parsed table, as \<^verbatim>\<open>pd.read_csv\<close> delivers it: the column names and the rows,
  one cell per column. The cells are values of a type \<open>'v\<close> on which \<^verbatim>\<open>pd.notna\<close>
  and \<^verbatim>\<open>str\<close> are given.
\<close>

record 'v dataframe =
  columns :: "string list"
  rows :: "'v list list"

text \<open>What a nearest-neighbour query answers: one list per query embedding.\<close>

record 'f query_result =
  res_documents :: "string list list"
  res_metadatas :: "metadata option list list"
  res_distances :: "'f list list"

text \<open>
  The external collaborators: the embedding model (\<open>None\<close> when loading failed at
  startup; its \<^verbatim>\<open>encode\<close> may raise), the identifier generator (the n-th value
  of \<^verbatim>\<open>uuid.uuid4()\<close>), \<^verbatim>\<open>pd.notna\<close> and \<^verbatim>\<open>str\<close> on cells, the store's
  check of a collection name, the store's nearest-neighbour search over the records
  of a collection, and the floating-point operations of the result formatting:
  \<^verbatim>\<open>1 - distance\<close> and the format \<^verbatim>\<open>.2%\<close>.
\<close>

record ('e, 'f, 'v) deps =
  embedding_model :: "(json list \<Rightarrow> exc + 'e list) option"
  uuid4 :: "nat \<Rightarrow> string"
  notna :: "'v \<Rightarrow> bool"
  py_str :: "'v \<Rightarrow> string"
  name_accepted :: "string \<Rightarrow> bool"
  nearest :: "'e stored list \<Rightarrow> 'e \<Rightarrow> nat \<Rightarrow> exc + 'f query_result"
  one_minus :: "'f \<Rightarrow> 'f"
  format_percent2 :: "'f \<Rightarrow> string"

section \<open>The ingestion pipeline\<close>

text \<open>The uploaded file: its name and what \<^verbatim>\<open>pd.read_csv(file.file)\<close> makes of it.\<close>

record 'v upload =
  filename :: string
  parsed :: "exc + 'v dataframe"

record upload_response =
  resp_collection_name :: string
  resp_count :: nat
  resp_message :: string

text \<open>A dict built by a comprehension: a later item with the same key replaces the value.\<close>

definition dict_of :: "(string \<times> string) list \<Rightarrow> metadata" where
  "dict_of kvs = foldl (\<lambda>d (k, v). AList.update k v d) [] kvs"

text \<open>
  Line 153:
  \<^verbatim>\<open>{col: str(val) for col, val in row.items() if col != 'Object_Text' and pd.notna(val)}\<close>.
\<close>

definition row_metadata :: "('e, 'f, 'v) deps \<Rightarrow> string list \<Rightarrow> 'v list \<Rightarrow> metadata" where
  "row_metadata deps cols row =
     dict_of (map (\<lambda>(col, val). (col, py_str deps val))
       (filter (\<lambda>(col, val). col \<noteq> ''Object_Text'' \<and> notna deps val) (zip cols row)))"

text \<open>Lines 151 to 157: the loop over the rows of one batch.\<close>

fun prepare_rows ::
  "('e, 'f, 'v) deps \<Rightarrow> string list \<Rightarrow> 'v list list
     \<Rightarrow> string list \<times> metadata list \<times> string list \<Rightarrow> 'e world
     \<Rightarrow> (exc + string list \<times> metadata list \<times> string list) \<times> 'e world" where
  "prepare_rows deps cols [] acc w = (Inr acc, w)"
| "prepare_rows deps cols (row # rest) (documents, metadatas, ids) w =
     (let metadata = row_metadata deps cols row in
      case map_of (zip cols row) ''Object_Text'' of
        None \<Rightarrow> (Inl (Error (quoted ''Object_Text'')), w)
      | Some text_val \<Rightarrow>
          prepare_rows deps cols rest
            (documents @ [py_str deps text_val], metadatas @ [metadata],
             ids @ [uuid4 deps (uuid_count w)])
            (w\<lparr>uuid_count := Suc (uuid_count w)\<rparr>))"

text \<open>
  Lines 143 to 170: \<^verbatim>\<open>for i in range(0, total_records, batch_size)\<close>. The batch is
  \<^verbatim>\<open>df.iloc[i:i+batch_size]\<close>. A zero step makes \<^verbatim>\<open>range\<close> raise before the first
  round; the caller tests it.
\<close>

function batch_loop ::
  "('e, 'f, 'v) deps \<Rightarrow> (json list \<Rightarrow> exc + 'e list) \<Rightarrow> 'v dataframe \<Rightarrow> string
     \<Rightarrow> nat \<Rightarrow> nat \<Rightarrow> nat \<Rightarrow> 'e world \<Rightarrow> (exc + unit) \<times> 'e world" where
  "batch_loop deps encode df collection batch_size total_records i w =
     (if batch_size = 0 \<or> total_records \<le> i then (Inr (), w)
      else
        let batch_df = take batch_size (drop i (rows df)) in
        case prepare_rows deps (columns df) batch_df ([], [], []) w of
          (Inl e, w1) \<Rightarrow> (Inl e, w1)
        | (Inr (documents, metadatas, ids), w1) \<Rightarrow>
            (let w2 = log_call (Encode (map JStr documents)) w1 in
             case encode (map JStr documents) of
               Inl e \<Rightarrow> (Inl e, w2)
             | Inr embeddings \<Rightarrow>
                 (case collection_add collection embeddings documents metadatas ids w2 of
                    (Inl e, w3) \<Rightarrow> (Inl e, w3)
                  | (Inr u, w3) \<Rightarrow>
                      batch_loop deps encode df collection batch_size total_records
                        (i + batch_size) w3)))"
  by pat_completeness auto
termination
  by (relation "measure (\<lambda>(deps, encode, df, collection, batch_size, total_records, i, w).
        total_records - i)") auto

declare batch_loop.simps [simp del]

text \<open>Lines 133 to 136: create the collection, and on any exception get it instead.\<close>

definition create_or_get ::
  "('e, 'f, 'v) deps \<Rightarrow> string \<Rightarrow> 'e world \<Rightarrow> (exc + string) \<times> 'e world" where
  "create_or_get deps name w =
     (case create_collection (name_accepted deps) name w of
        (Inr collection, w1) \<Rightarrow> (Inr collection, w1)
      | (Inl e, w1) \<Rightarrow> get_collection (JStr name) w1)"

text \<open>Lines 122 to 176: the body of the \<^verbatim>\<open>try\<close>, with the batch size as a parameter.\<close>

definition upload_try ::
  "nat \<Rightarrow> ('e, 'f, 'v) deps \<Rightarrow> (json list \<Rightarrow> exc + 'e list) \<Rightarrow> 'v upload \<Rightarrow> 'e world
     \<Rightarrow> (exc + upload_response) \<times> 'e world" where
  "upload_try batch_size deps encode file w =
     (case parsed file of
        Inl e \<Rightarrow> (Inl e, w)
      | Inr df \<Rightarrow>
          if ''Object_Text'' \<notin> set (columns df)
          then (Inl (HTTPException 400
                  (''CSV must contain '' @ quoted ''Object_Text'' @ '' column'')), w)
          else
            let name = derive_collection_name (filename file) in
            case create_or_get deps name w of
              (Inl e, w1) \<Rightarrow> (Inl e, w1)
            | (Inr collection, w1) \<Rightarrow>
                (let total_records = length (rows df) in
                 if batch_size = 0 then (Inl (Error ''range() arg 3 must not be zero''), w1)
                 else
                   case batch_loop deps encode df collection batch_size total_records 0 w1 of
                     (Inl e, w2) \<Rightarrow> (Inl e, w2)
                   | (Inr u, w2) \<Rightarrow>
                       (Inr \<lparr>resp_collection_name = name, resp_count = total_records,
                             resp_message = ''Successfully uploaded '' @ str_nat total_records
                               @ '' records to collection '' @ quoted name\<rparr>, w2)))"

text \<open>
  Lines 113 to 179. The \<^verbatim>\<open>except Exception\<close> clause catches every exception of the
  \<^verbatim>\<open>try\<close> body, the \<open>HTTPException\<close> raised there too, and raises status 500.
\<close>

definition upload_file_with ::
  "nat \<Rightarrow> ('e, 'f, 'v) deps \<Rightarrow> 'v upload \<Rightarrow> 'e world \<Rightarrow> upload_response outcome \<times> 'e world" where
  "upload_file_with batch_size deps file w =
     (if \<not> endswith (filename file) ''.csv''
      then (Raise (HTTPException 400 ''Only CSV files are supported''), w)
      else
        case embedding_model deps of
          None \<Rightarrow> (Raise (HTTPException 500 ''Embedding model not loaded''), w)
        | Some encode \<Rightarrow>
            (case upload_try batch_size deps encode file w of
               (Inl e, w1) \<Rightarrow>
                 (Raise (HTTPException 500 (''Error processing file: '' @ str_exc e)), w1)
             | (Inr response, w1) \<Rightarrow> (Return response, w1)))"

text \<open>Line 139: \<^verbatim>\<open>batch_size = 100\<close>.\<close>

definition upload_file ::
  "('e, 'f, 'v) deps \<Rightarrow> 'v upload \<Rightarrow> 'e world \<Rightarrow> upload_response outcome \<times> 'e world" where
  "upload_file = upload_file_with 100"

section \<open>The query pipeline\<close>

definition newline :: string where
  "newline = [CHR 0x0A]"

text \<open>\<^verbatim>\<open>xs[0]\<close> raises \<open>IndexError\<close> on an empty list.\<close>

definition first :: "'a list \<Rightarrow> exc + 'a" where
  "first xs = (case xs of [] \<Rightarrow> Inl (Error ''list index out of range'') | x # _ \<Rightarrow> Inr x)"

text \<open>
  Line 98: the header and the document of one result, one element of
  \<^verbatim>\<open>response_parts\<close>.
\<close>

definition result_header :: "('e, 'f, 'v) deps \<Rightarrow> nat \<Rightarrow> 'f \<Rightarrow> string" where
  "result_header deps i distance =
     (let similarity = one_minus deps distance in
      ''**Result '' @ str_nat (i + 1) @ ''** (Similarity: ''
        @ format_percent2 deps similarity @ '')'')"

text \<open>Line 102: the \<^verbatim>\<open>key: value\<close> pairs of the metadata, the text column's key left out.\<close>

definition metadata_str :: "metadata \<Rightarrow> string" where
  "metadata_str md =
     join '', '' (map (\<lambda>(k, v). k @ '': '' @ v) (filter (\<lambda>(k, v). k \<noteq> ''Object_Text'') md))"

text \<open>Lines 92 to 106: the loop over the zipped results, \<open>i\<close> the index of \<^verbatim>\<open>enumerate\<close>.\<close>

fun format_loop ::
  "('e, 'f, 'v) deps \<Rightarrow> nat \<Rightarrow> (string \<times> metadata option \<times> 'f) list \<Rightarrow> string list
     \<Rightarrow> string list" where
  "format_loop deps i [] response_parts = response_parts"
| "format_loop deps i ((doc, md, distance) # rest) response_parts =
     (let parts1 = response_parts @ [result_header deps i distance @ newline @ doc];
          parts2 =
            (case md of
               None \<Rightarrow> parts1
             | Some m \<Rightarrow>
                 if m = [] then parts1
                 else if metadata_str m \<noteq> []
                   then parts1 @ [''Additional info: '' @ metadata_str m]
                   else parts1);
          parts3 = parts2 @ ['''']
      in format_loop deps (i + 1) rest parts3)"

text \<open>Lines 87 to 108: what is made of the answer of the store.\<close>

definition format_results :: "('e, 'f, 'v) deps \<Rightarrow> 'f query_result \<Rightarrow> exc + string" where
  "format_results deps results =
     (if res_documents results = [] then Inr ''No relevant results found for your query.''
      else
        case first (res_documents results) of
          Inl e \<Rightarrow> Inl e
        | Inr docs \<Rightarrow>
            if docs = [] then Inr ''No relevant results found for your query.''
            else
              (case first (res_metadatas results) of
                 Inl e \<Rightarrow> Inl e
               | Inr mds \<Rightarrow>
                   (case first (res_distances results) of
                      Inl e \<Rightarrow> Inl e
                    | Inr dists \<Rightarrow>
                        Inr (join newline (format_loop deps 0 (zip docs (zip mds dists)) [])))))"

text \<open>The records of a collection, for the nearest-neighbour search.\<close>

definition collection_records :: "'e world \<Rightarrow> string \<Rightarrow> 'e stored list" where
  "collection_records w name = (case map_of (store w) name of None \<Rightarrow> [] | Some recs \<Rightarrow> recs)"

text \<open>Lines 64 to 108: the body of the \<^verbatim>\<open>try\<close>.\<close>

definition chat_try ::
  "('e, 'f, 'v) deps \<Rightarrow> (json list \<Rightarrow> exc + 'e list) \<Rightarrow> json \<Rightarrow> json \<Rightarrow> 'e world
     \<Rightarrow> (exc + string) \<times> 'e world" where
  "chat_try deps encode msg requested w =
     (case list_collections w of
        (collections, w1) \<Rightarrow>
          (case collections of
             [] \<Rightarrow> (Inr ''No data collections available. Please upload a CSV file first.'', w1)
           | c0 # _ \<Rightarrow>
               (let wanted = (if \<not> truthy requested then JStr c0 else requested) in
                case get_collection wanted w1 of
                  (Inl e, w2) \<Rightarrow> (Inl e, w2)
                | (Inr collection, w2) \<Rightarrow>
                    (let w3 = log_call (Encode [msg]) w2 in
                     case encode [msg] of
                       Inl e \<Rightarrow> (Inl e, w3)
                     | Inr embeddings \<Rightarrow>
                         (case first embeddings of
                            Inl e \<Rightarrow> (Inl e, w3)
                          | Inr query_embedding \<Rightarrow>
                              (let w4 = log_call (Query collection 5) w3 in
                               case nearest deps (collection_records w4 collection)
                                      query_embedding 5 of
                                 Inl e \<Rightarrow> (Inl e, w4)
                               | Inr results \<Rightarrow> (format_results deps results, w4)))))))"

text \<open>
  Lines 49 to 111. The request is given by what \<^verbatim>\<open>await request.json()\<close> does: it
  raises, or delivers the parsed body. Lines 51 and 52 stand before the \<^verbatim>\<open>try\<close>.
\<close>

definition chat_endpoint ::
  "('e, 'f, 'v) deps \<Rightarrow> exc + json \<Rightarrow> 'e world \<Rightarrow> string outcome \<times> 'e world" where
  "chat_endpoint deps request_json w =
     (case request_json of
        Inl e \<Rightarrow> (Raise e, w)
      | Inr data \<Rightarrow>
          (case dict_get data ''message'' (JStr '''') of
             Inl e \<Rightarrow> (Raise e, w)
           | Inr msg \<Rightarrow>
               if \<not> truthy msg then (Return ''Please provide a message to search.'', w)
               else
                 (case embedding_model deps of
                    None \<Rightarrow>
                      (Return ''Embedding model not loaded. Please check the server logs.'', w)
                  | Some encode \<Rightarrow>
                      (case dict_get data ''collection'' JNull of
                         Inl e \<Rightarrow> (Raise e, w)
                       | Inr requested \<Rightarrow>
                           (case chat_try deps encode msg requested w of
                              (Inl e, w1) \<Rightarrow> (Return (''Error searching: '' @ str_exc e), w1)
                            | (Inr text, w1) \<Rightarrow> (Return text, w1))))))"

section \<open>Notions used in the statements\<close>

text \<open>The document of a row: \<^verbatim>\<open>str(row['Object_Text'])\<close>, where the row has the cell.\<close>

definition row_text :: "('e, 'f, 'v) deps \<Rightarrow> string list \<Rightarrow> 'v list \<Rightarrow> string" where
  "row_text deps cols row =
     (case map_of (zip cols row) ''Object_Text'' of None \<Rightarrow> [] | Some v \<Rightarrow> py_str deps v)"

text \<open>The calls of the batch loop: to the embedding provider and the writes of records.\<close>

fun is_batch_call :: "call \<Rightarrow> bool" where
  "is_batch_call (Encode xs) = True"
| "is_batch_call (Add c n) = True"
| "is_batch_call c = False"

text \<open>The store once a collection of the given name is there: a new one is empty.\<close>

definition ensure_collection :: "string \<Rightarrow> 'e store \<Rightarrow> 'e store" where
  "ensure_collection name s = (if name \<in> set (map fst s) then s else s @ [(name, [])])"


text \<open>
  The response as the specification words it. One result, rank counted from 1: the
  header line, the document, and a line of the metadata pairs when any is left without
  the text column's key; each line ends with a line break.
\<close>

definition entry_text ::
  "('e, 'f, 'v) deps \<Rightarrow> nat \<Rightarrow> string \<times> metadata option \<times> 'f \<Rightarrow> string" where
  "entry_text deps rank r =
     (case r of (doc, md, distance) \<Rightarrow>
        ''**Result '' @ str_nat rank @ ''** (Similarity: ''
          @ format_percent2 deps (one_minus deps distance) @ '')'' @ newline
        @ doc @ newline
        @ (let rest = filter (\<lambda>(k, v). k \<noteq> ''Object_Text'')
                        (case md of None \<Rightarrow> [] | Some m \<Rightarrow> m)
           in if rest = [] then []
              else ''Additional info: ''
                     @ join '', '' (map (\<lambda>(k, v). k @ '': '' @ v) rest) @ newline))"

text \<open>The results in the order given, a line break between two entries.\<close>

definition spec_response ::
  "('e, 'f, 'v) deps \<Rightarrow> (string \<times> metadata option \<times> 'f) list \<Rightarrow> string" where
  "spec_response deps results =
     join newline (map (\<lambda>(i, r). entry_text deps (i + 1) r) (zip [0..<length results] results))"

text \<open>The elements one result adds to \<^verbatim>\<open>response_parts\<close>, \<open>i\<close> its index.\<close>

definition entry_parts ::
  "('e, 'f, 'v) deps \<Rightarrow> nat \<times> string \<times> metadata option \<times> 'f \<Rightarrow> string list" where
  "entry_parts deps ir =
     (case ir of (i, doc, md, distance) \<Rightarrow>
        [result_header deps i distance @ newline @ doc]
        @ (case md of
             None \<Rightarrow> []
           | Some m \<Rightarrow>
               if m \<noteq> [] \<and> metadata_str m \<noteq> []
               then [''Additional info: '' @ metadata_str m] else [])
        @ [''''])"

section \<open>A small instance\<close>

text \<open>
  Stand-ins for the collaborators, to run the pipelines on: cells are optional
  strings, \<open>None\<close> the missing value; an embedding is a number; a distance is a
  number of percent.
\<close>

definition demo_encode :: "json list \<Rightarrow> exc + nat list" where
  "demo_encode xs = Inr (map (\<lambda>x. 0) xs)"

definition demo_nearest :: "nat stored list \<Rightarrow> nat \<Rightarrow> nat \<Rightarrow> exc + nat query_result" where
  "demo_nearest recs q n =
     Inr \<lparr>res_documents = [map rec_document (take n recs)],
          res_metadatas = [map (\<lambda>r. if rec_metadata r = [] then None else Some (rec_metadata r))
                             (take n recs)],
          res_distances = [map (\<lambda>r. 25) (take n recs)]\<rparr>"

text \<open>
  A stand-in for the store's check of a collection name: 3 to 63 characters, each a
  letter, a digit, a dot, a dash or an underscore, a letter or a digit at both ends.
\<close>

definition alnum :: "char \<Rightarrow> bool" where
  "alnum c =
     (let n = (of_char c :: nat)
      in (48 \<le> n \<and> n \<le> 57) \<or> (65 \<le> n \<and> n \<le> 90) \<or> (97 \<le> n \<and> n \<le> 122))"

definition demo_name_accepted :: "string \<Rightarrow> bool" where
  "demo_name_accepted name =
     (3 \<le> length name \<and> length name \<le> 63
      \<and> alnum (hd name) \<and> alnum (last name)
      \<and> list_all (\<lambda>c. alnum c \<or> c \<in> set ''._-'') name)"

definition demo_deps :: "(nat, nat, string option) deps" where
  "demo_deps =
     \<lparr>embedding_model = Some demo_encode,
      uuid4 = (\<lambda>n. replicate (Suc n) CHR ''u''),
      notna = (\<lambda>v. v \<noteq> None),
      py_str = (\<lambda>v. case v of None \<Rightarrow> ''nan'' | Some s \<Rightarrow> s),
      name_accepted = demo_name_accepted,
      nearest = demo_nearest,
      one_minus = (\<lambda>d. 100 - d),
      format_percent2 = (\<lambda>p. str_nat p @ ''.00%'')\<rparr>"

definition empty_world :: "nat world" where
  "empty_world = \<lparr>store = [], uuid_count = 0, calls = []\<rparr>"

definition parts_table :: "string option dataframe" where
  "parts_table =
     \<lparr>columns = [''Part'', ''Object_Text'', ''Note''],
      rows = [[Some ''X123'', Some ''Brake pad model X123'', None],
              [Some ''Y9'', Some ''Brake disc'', Some ''front'']]\<rparr>"

definition parts_file :: "string option upload" where
  "parts_file = \<lparr>filename = ''Brake Parts.csv'', parsed = Inr parts_table\<rparr>"

definition more_parts_file :: "string option upload" where
  "more_parts_file =
     \<lparr>filename = ''brake parts.csv'',
      parsed = Inr \<lparr>columns = [''Object_Text'', ''Part''],
                    rows = [[Some ''Caliper'', Some ''C7'']]\<rparr>\<rparr>"

definition no_text_file :: "string option upload" where
  "no_text_file =
     \<lparr>filename = ''parts.csv'',
      parsed = Inr \<lparr>columns = [''Part''], rows = [[Some ''X123'']]\<rparr>\<rparr>"

definition header_only_file :: "string option upload" where
  "header_only_file =
     \<lparr>filename = ''empty.csv'',
      parsed = Inr \<lparr>columns = [''Object_Text'', ''Part''], rows = []\<rparr>\<rparr>"



definition short_name_file :: "string option upload" where
  "short_name_file =
     \<lparr>filename = ''a.csv'',
      parsed = Inr \<lparr>columns = [''Object_Text'', ''Part''], rows = []\<rparr>\<rparr>"

text \<open>The responses and the states of the runs on the instance.\<close>

definition loaded_world :: "nat world" where
  "loaded_world =
     \<lparr>store =
        [(''brake_parts'',
          [\<lparr>rec_id = ''u'', rec_embedding = 0, rec_document = ''Brake pad model X123'',
             rec_metadata = [(''Part'', ''X123'')]\<rparr>,
           \<lparr>rec_id = ''uu'', rec_embedding = 0, rec_document = ''Brake disc'',
             rec_metadata = [(''Part'', ''Y9''), (''Note'', ''front'')]\<rparr>])],
      uuid_count = 2,
      calls = [CreateCollection ''brake_parts'',
               Encode [JStr ''Brake pad model X123'', JStr ''Brake disc''],
               Add ''brake_parts'' 2]\<rparr>"

definition parts_response :: upload_response where
  "parts_response =
     \<lparr>resp_collection_name = ''brake_parts'', resp_count = 2,
      resp_message = ''Successfully uploaded 2 records to collection '' @ quoted ''brake_parts''\<rparr>"

definition more_response :: upload_response where
  "more_response =
     \<lparr>resp_collection_name = ''brake_parts'', resp_count = 1,
      resp_message = ''Successfully uploaded 1 records to collection '' @ quoted ''brake_parts''\<rparr>"

definition reloaded_world :: "nat world" where
  "reloaded_world =
     \<lparr>store =
        [(''brake_parts'',
          [\<lparr>rec_id = ''u'', rec_embedding = 0, rec_document = ''Brake pad model X123'',
             rec_metadata = [(''Part'', ''X123'')]\<rparr>,
           \<lparr>rec_id = ''uu'', rec_embedding = 0, rec_document = ''Brake disc'',
             rec_metadata = [(''Part'', ''Y9''), (''Note'', ''front'')]\<rparr>,
           \<lparr>rec_id = ''uuu'', rec_embedding = 0, rec_document = ''Caliper'',
             rec_metadata = [(''Part'', ''C7'')]\<rparr>])],
      uuid_count = 3,
      calls = [CreateCollection ''brake_parts'',
               Encode [JStr ''Brake pad model X123'', JStr ''Brake disc''],
               Add ''brake_parts'' 2,
               CreateCollection ''brake_parts'', GetCollection (JStr ''brake_parts''),
               Encode [JStr ''Caliper''], Add ''brake_parts'' 1]\<rparr>"

text \<open>The instance with the embedding model not loaded.\<close>

definition unloaded_deps :: "(nat, nat, string option) deps" where
  "unloaded_deps = demo_deps\<lparr>embedding_model := None\<rparr>"


section \<open>Auxiliary facts\<close>

lemma upt_shift: "[k..<k + Suc n] = k # [Suc k..<Suc k + n]"
  by (simp add: upt_conv_Cons)

lemma prepare_rows_Inr:
  "prepare_rows deps cols rs (ds, ms, is) w = (Inr (ds', ms', is'), w') \<Longrightarrow>
     ds' = ds @ map (row_text deps cols) rs \<and>
     ms' = ms @ map (row_metadata deps cols) rs \<and>
     is' = is @ map (uuid4 deps) [uuid_count w..<uuid_count w + length rs] \<and>
     w' = w\<lparr>uuid_count := uuid_count w + length rs\<rparr>"
proof (induction rs arbitrary: ds ms "is" w)
  case Nil
  then show ?case by simp
next
  case (Cons r rs)
  from Cons.prems obtain v where v: "map_of (zip cols r) ''Object_Text'' = Some v"
    by (auto split: option.splits)
  with Cons.prems have
    "prepare_rows deps cols rs (ds @ [py_str deps v], ms @ [row_metadata deps cols r],
        is @ [uuid4 deps (uuid_count w)]) (w\<lparr>uuid_count := Suc (uuid_count w)\<rparr>)
      = (Inr (ds', ms', is'), w')"
    by simp
  from Cons.IH [OF this] v show ?case
    using upt_shift [of "uuid_count w" "length rs"] by (simp add: row_text_def)
qed


lemma make_records_proj:
  assumes "length es = length is" "length ds = length is" "length ms = length is"
  shows "map rec_id (make_records is es ds ms) = is"
    and "map rec_document (make_records is es ds ms) = ds"
    and "map rec_metadata (make_records is es ds ms) = ms"
    and "length (make_records is es ds ms) = length is"
  using assms by (auto intro!: nth_equalityI simp: make_records_def)

lemma collection_add_Inr:
  assumes "collection_add coll es ds ms is w = (Inr u, w')"
  shows "length es = length is \<and> length ds = length is \<and> length ms = length is \<and>
         (\<exists>recs. map_of (store w) coll = Some recs \<and>
            w' = w\<lparr>calls := calls w @ [Add coll (length is)],
                  store := AList.update coll (recs @ make_records is es ds ms) (store w)\<rparr>)"
  using assms
  by (auto simp: collection_add_def log_call_def Let_def split: if_splits option.splits)


lemma batch_loop_Inr:
  assumes "batch_loop deps enc df coll bs (length (rows df)) i w = (Inr u, w')"
      and "0 < bs"
      and "map_of (store w) coll = Some recs"
  shows "\<exists>new cs. store w' = AList.update coll (recs @ new) (store w) \<and>
          map rec_document new = map (row_text deps (columns df)) (drop i (rows df)) \<and>
          map rec_metadata new = map (row_metadata deps (columns df)) (drop i (rows df)) \<and>
          map rec_id new
            = map (uuid4 deps) [uuid_count w ..< uuid_count w + (length (rows df) - i)] \<and>
          uuid_count w' = uuid_count w + (length (rows df) - i) \<and>
          calls w' = calls w @ cs \<and> (\<forall>c\<in>set cs. is_batch_call c) \<and>
          (length (rows df) \<le> i \<longrightarrow> cs = [])"
  using assms
proof (induction "length (rows df) - i" arbitrary: i w recs rule: less_induct)
  case less
  let ?n = "length (rows df)"
  let ?cols = "columns df"
  show ?case
  proof (cases "?n \<le> i")
    case True
    with less.prems have "w' = w" by (simp add: batch_loop.simps)
    with True less.prems(3) show ?thesis
      by (intro exI[of _ "[]"]) (simp add: update_triv)
  next
    case False
    define batch where "batch = take bs (drop i (rows df))"
    from False less.prems(1,2) obtain ds ms ids w1 es w3 where
      prep: "prepare_rows deps ?cols batch ([], [], []) w = (Inr (ds, ms, ids), w1)" and
      enc: "enc (map JStr ds) = Inr es" and
      add: "collection_add coll es ds ms ids (log_call (Encode (map JStr ds)) w1) = (Inr (), w3)" and
      rest: "batch_loop deps enc df coll bs ?n (i + bs) w3 = (Inr u, w')"
      unfolding batch_def
      by (subst (asm) batch_loop.simps) (auto simp: Let_def split: prod.splits sum.splits)
    from prepare_rows_Inr [OF prep] have
      ds: "ds = map (row_text deps ?cols) batch" and
      ms: "ms = map (row_metadata deps ?cols) batch" and
      ids: "ids = map (uuid4 deps) [uuid_count w..<uuid_count w + length batch]" and
      w1: "w1 = w\<lparr>uuid_count := uuid_count w + length batch\<rparr>"
      by simp_all
    define B where "B = make_records ids es ds ms"
    from collection_add_Inr [OF add] less.prems(3) have
      lens: "length es = length ids" "length ds = length ids" "length ms = length ids" and
      w3: "w3 = w\<lparr>uuid_count := uuid_count w + length batch,
                   calls := calls w @ [Encode (map JStr ds), Add coll (length ids)],
                   store := AList.update coll (recs @ B) (store w)\<rparr>"
      by (auto simp: w1 log_call_def B_def)
    have look: "map_of (store w3) coll = Some (recs @ B)"
      by (simp add: w3 update_conv')
    have "?n - (i + bs) < ?n - i" using False less.prems(2) by arith
    from less.hyps [OF this rest less.prems(2) look] obtain new' cs' where
      st: "store w' = AList.update coll ((recs @ B) @ new') (store w3)" and
      d': "map rec_document new' = map (row_text deps ?cols) (drop (i + bs) (rows df))" and
      m': "map rec_metadata new' = map (row_metadata deps ?cols) (drop (i + bs) (rows df))" and
      i': "map rec_id new'
             = map (uuid4 deps) [uuid_count w3 ..< uuid_count w3 + (?n - (i + bs))]" and
      u': "uuid_count w' = uuid_count w3 + (?n - (i + bs))" and
      c': "calls w' = calls w3 @ cs'" "\<forall>c\<in>set cs'. is_batch_call c"
      by blast
    have split_rows: "drop i (rows df) = batch @ drop (i + bs) (rows df)"
      unfolding batch_def by (metis add.commute append_take_drop_id drop_drop)
    have lb: "length batch = min bs (?n - i)" by (simp add: batch_def min.commute)
    have cnt: "length batch + (?n - (i + bs)) = ?n - i" using lb False by (auto simp: min_def)
    have upt: "[uuid_count w..<uuid_count w + length batch]
                 @ [uuid_count w + length batch ..< uuid_count w + length batch + (?n - (i + bs))]
               = [uuid_count w ..< uuid_count w + (?n - i)]"
      using cnt by (metis add.assoc le_add1 upt_add_eq_append)
    have 1: "store w' = AList.update coll (recs @ B @ new') (store w)"
      using st by (simp add: w3)
    have 2: "map rec_document (B @ new') = map (row_text deps ?cols) (drop i (rows df))"
      using d' make_records_proj(2) [OF lens] by (simp add: B_def split_rows ds)
    have 3: "map rec_metadata (B @ new') = map (row_metadata deps ?cols) (drop i (rows df))"
      using m' make_records_proj(3) [OF lens] by (simp add: B_def split_rows ms)
    have 4: "map rec_id (B @ new')
               = map (uuid4 deps) [uuid_count w ..< uuid_count w + (?n - i)]"
      using i' make_records_proj(1) [OF lens] upt [symmetric] by (simp add: B_def ids w3)
    have 5: "uuid_count w' = uuid_count w + (?n - i)"
      using u' cnt by (simp add: w3)
    have 6: "calls w' = calls w @ ([Encode (map JStr ds), Add coll (length ids)] @ cs')"
      using c'(1) by (simp add: w3)
    have 7: "\<forall>c\<in>set ([Encode (map JStr ds), Add coll (length ids)] @ cs'). is_batch_call c"
      using c'(2) by simp
    from 1 2 3 4 5 6 7 False show ?thesis by blast
  qed
qed

lemma has_text_cell:
  assumes "''Object_Text'' \<in> set cols" and "length row = length cols"
  shows "\<exists>v. map_of (zip cols row) ''Object_Text'' = Some v"
  using assms by (simp add: map_of_zip_is_Some [symmetric])





lemma create_or_get_eq:
  "create_or_get deps name w =
     (if name \<in> set (map fst (store w))
      then (Inr name,
            w\<lparr>calls := calls w @ [CreateCollection name, GetCollection (JStr name)]\<rparr>)
      else if name_accepted deps name
      then (Inr name,
            w\<lparr>calls := calls w @ [CreateCollection name], store := store w @ [(name, [])]\<rparr>)
      else (Inl (Error (''Collection '' @ name @ '' does not exist'')),
            w\<lparr>calls := calls w @ [CreateCollection name, GetCollection (JStr name)]\<rparr>))"
  by (simp add: create_or_get_def create_collection_def get_collection_def log_call_def Let_def)

lemma create_or_get_Inr:
  assumes "create_or_get deps name w = (Inr c, w1)"
  shows "c = name
       \<and> w1 = w\<lparr>calls := calls w @ (if name \<in> set (map fst (store w))
                              then [CreateCollection name, GetCollection (JStr name)]
                              else [CreateCollection name]),
        store := ensure_collection name (store w)\<rparr>"
  using assms by (auto simp: create_or_get_eq ensure_collection_def split: if_splits)

lemma create_or_get_ok:
  assumes "name_accepted deps name \<or> name \<in> set (map fst (store w))"
  shows "create_or_get deps name w =
     (Inr name,
      w\<lparr>calls := calls w @ (if name \<in> set (map fst (store w))
                              then [CreateCollection name, GetCollection (JStr name)]
                              else [CreateCollection name]),
        store := ensure_collection name (store w)\<rparr>)"
  using assms by (auto simp: create_or_get_eq ensure_collection_def)

lemma map_of_ensure_collection:
  "map_of (ensure_collection name s) name
     = Some (case map_of s name of None \<Rightarrow> [] | Some recs \<Rightarrow> recs)"
  by (auto simp: ensure_collection_def map_of_eq_None_iff [symmetric] map_add_def
        split: option.splits)

lemma upload_try_Inr:
  assumes "upload_try bs deps enc file w = (Inr r, w')"
  obtains df new cs where
    "parsed file = Inr df" "''Object_Text'' \<in> set (columns df)" "0 < bs"
    "resp_collection_name r = derive_collection_name (filename file)"
    "resp_count r = length (rows df)"
    "resp_message r = ''Successfully uploaded '' @ str_nat (length (rows df))
       @ '' records to collection '' @ quoted (derive_collection_name (filename file))"
    "store w' = AList.update (derive_collection_name (filename file))
                  (collection_records w (derive_collection_name (filename file)) @ new)
                  (ensure_collection (derive_collection_name (filename file)) (store w))"
    "map rec_document new = map (row_text deps (columns df)) (rows df)"
    "map rec_metadata new = map (row_metadata deps (columns df)) (rows df)"
    "map rec_id new = map (uuid4 deps) [uuid_count w ..< uuid_count w + length (rows df)]"
    "uuid_count w' = uuid_count w + length (rows df)"
    "calls w' = calls w
       @ (if derive_collection_name (filename file) \<in> set (map fst (store w))
          then [CreateCollection (derive_collection_name (filename file)),
                GetCollection (JStr (derive_collection_name (filename file)))]
          else [CreateCollection (derive_collection_name (filename file))]) @ cs"
    "\<forall>c\<in>set cs. is_batch_call c" "rows df = [] \<longrightarrow> cs = []"
proof -
  let ?name = "derive_collection_name (filename file)"
  from assms obtain df where df: "parsed file = Inr df"
    by (cases "parsed file") (simp_all add: upload_try_def)
  from assms df have ot: "''Object_Text'' \<in> set (columns df)"
    by (auto simp: upload_try_def split: if_splits)
  define w1 where "w1 = w\<lparr>calls := calls w @ (if ?name \<in> set (map fst (store w))
                              then [CreateCollection ?name, GetCollection (JStr ?name)]
                              else [CreateCollection ?name]),
        store := ensure_collection ?name (store w)\<rparr>"
  from assms df ot obtain c w1' where "create_or_get deps ?name w = (Inr c, w1')"
    by (auto simp: upload_try_def Let_def split: prod.splits sum.splits if_splits)
  then have cog: "create_or_get deps ?name w = (Inr ?name, w1)"
    using create_or_get_Inr [of deps ?name w c w1'] by (simp add: w1_def)
  from assms df ot cog have bs: "0 < bs"
    by (auto simp: upload_try_def Let_def split: if_splits)
  from assms df ot cog bs have
    loop: "batch_loop deps enc df ?name bs (length (rows df)) 0 w1 = (Inr (), w')" and
    r: "resp_collection_name r = ?name" "resp_count r = length (rows df)"
       "resp_message r = ''Successfully uploaded '' @ str_nat (length (rows df))
          @ '' records to collection '' @ quoted ?name"
    by (auto simp: upload_try_def Let_def split: prod.splits sum.splits)
  have look: "map_of (store w1) ?name = Some (collection_records w ?name)"
    by (simp add: w1_def map_of_ensure_collection collection_records_def)
  from batch_loop_Inr [OF loop bs look] obtain new cs where
    f: "store w' = AList.update ?name (collection_records w ?name @ new) (store w1)"
       "map rec_document new = map (row_text deps (columns df)) (drop 0 (rows df))"
       "map rec_metadata new = map (row_metadata deps (columns df)) (drop 0 (rows df))"
       "map rec_id new
            = map (uuid4 deps) [uuid_count w1 ..< uuid_count w1 + (length (rows df) - 0)]"
       "uuid_count w' = uuid_count w1 + (length (rows df) - 0)"
       "calls w' = calls w1 @ cs" "\<forall>c\<in>set cs. is_batch_call c"
       "length (rows df) \<le> 0 \<longrightarrow> cs = []"
    by blast
  show thesis
    by (rule that [of df new cs]) (use df ot bs r f in \<open>simp_all add: w1_def\<close>)
qed

lemma upload_file_with_Return:
  assumes "upload_file_with bs deps file w = (Return r, w')"
  obtains enc where "endswith (filename file) ''.csv''" "embedding_model deps = Some enc"
    "upload_try bs deps enc file w = (Inr r, w')"
  using assms
  by (auto simp: upload_file_with_def split: if_splits option.splits prod.splits sum.splits)


lemma upload_Return:
  assumes "upload_file_with bs deps file w = (Return r, w')"
      and "parsed file = Inr df"
  obtains new cs where
    "endswith (filename file) ''.csv''"
    "''Object_Text'' \<in> set (columns df)" "0 < bs"
    "resp_collection_name r = derive_collection_name (filename file)"
    "resp_count r = length (rows df)"
    "resp_message r = ''Successfully uploaded '' @ str_nat (length (rows df))
       @ '' records to collection '' @ quoted (derive_collection_name (filename file))"
    "store w' = AList.update (derive_collection_name (filename file))
                  (collection_records w (derive_collection_name (filename file)) @ new)
                  (ensure_collection (derive_collection_name (filename file)) (store w))"
    "map rec_document new = map (row_text deps (columns df)) (rows df)"
    "map rec_metadata new = map (row_metadata deps (columns df)) (rows df)"
    "map rec_id new = map (uuid4 deps) [uuid_count w ..< uuid_count w + length (rows df)]"
    "uuid_count w' = uuid_count w + length (rows df)"
    "calls w' = calls w
       @ (if derive_collection_name (filename file) \<in> set (map fst (store w))
          then [CreateCollection (derive_collection_name (filename file)),
                GetCollection (JStr (derive_collection_name (filename file)))]
          else [CreateCollection (derive_collection_name (filename file))]) @ cs"
    "\<forall>c\<in>set cs. is_batch_call c" "rows df = [] \<longrightarrow> cs = []"
proof -
  from assms(1) obtain enc where e: "endswith (filename file) ''.csv''"
    and t: "upload_try bs deps enc file w = (Inr r, w')"
    by (rule upload_file_with_Return)
  show thesis
  proof (rule upload_try_Inr [OF t])
    fix df' new cs
    assume "parsed file = Inr df'"
    with assms(2) have same: "df' = df" by simp
    assume "''Object_Text'' \<in> set (columns df')" "0 < bs"
    "resp_collection_name r = derive_collection_name (filename file)"
    "resp_count r = length (rows df')"
    "resp_message r = ''Successfully uploaded '' @ str_nat (length (rows df'))
       @ '' records to collection '' @ quoted (derive_collection_name (filename file))"
    "store w' = AList.update (derive_collection_name (filename file))
                  (collection_records w (derive_collection_name (filename file)) @ new)
                  (ensure_collection (derive_collection_name (filename file)) (store w))"
    "map rec_document new = map (row_text deps (columns df')) (rows df')"
    "map rec_metadata new = map (row_metadata deps (columns df')) (rows df')"
    "map rec_id new = map (uuid4 deps) [uuid_count w ..< uuid_count w + length (rows df')]"
    "uuid_count w' = uuid_count w + length (rows df')"
    "calls w' = calls w
       @ (if derive_collection_name (filename file) \<in> set (map fst (store w))
          then [CreateCollection (derive_collection_name (filename file)),
                GetCollection (JStr (derive_collection_name (filename file)))]
          else [CreateCollection (derive_collection_name (filename file))]) @ cs"
    "\<forall>c\<in>set cs. is_batch_call c" "rows df' = [] \<longrightarrow> cs = []"
    then show thesis
      unfolding same using e by (intro that [of new cs])
  qed
qed

lemma update_fresh_key: "k \<notin> fst ` set al \<Longrightarrow> AList.update k v al = al @ [(k, v)]"
  by (induction al) auto

lemma foldl_update_distinct:
  "distinct (map fst (acc @ kvs)) \<Longrightarrow>
     foldl (\<lambda>d (k, v). AList.update k v d) acc kvs = acc @ kvs"
proof (induction kvs arbitrary: acc)
  case Nil
  then show ?case by simp
next
  case (Cons kv kvs)
  obtain k v where kv: "kv = (k, v)" by (cases kv)
  from Cons.prems kv have fresh: "k \<notin> fst ` set acc" by auto
  from Cons.prems kv have "distinct (map fst ((acc @ [(k, v)]) @ kvs))" by simp
  from Cons.IH [OF this] show ?case by (simp add: kv update_fresh_key [OF fresh])
qed

lemma dict_of_distinct: "distinct (map fst kvs) \<Longrightarrow> dict_of kvs = kvs"
  using foldl_update_distinct [of "[]" kvs] by (simp add: dict_of_def)

lemma map_of_filter_map:
  "distinct (map fst xs) \<Longrightarrow>
     map_of (map (\<lambda>(k, v). (k, f v)) (filter (\<lambda>(k, v). P k v) xs)) c
       = (case map_of xs c of None \<Rightarrow> None
          | Some v \<Rightarrow> if P c v then Some (f v) else None)"
proof (induction xs)
  case Nil
  then show ?case by simp
next
  case (Cons kv xs)
  obtain k v where kv: "kv = (k, v)" by (cases kv)
  from Cons.prems kv have k: "k \<notin> fst ` set xs" and d: "distinct (map fst xs)" by auto
  from k have none: "map_of xs k = None" by (simp add: map_of_eq_None_iff)
  show ?case using Cons.IH [OF d] none by (auto simp: kv)
qed

lemma distinct_keys_filter_map:
  "distinct (map fst xs) \<Longrightarrow>
     distinct (map fst (map (\<lambda>(k, v). (k, f v)) (filter (\<lambda>(k, v). P k v) xs)))"
  by (induction xs) (auto simp: image_iff)

lemma map_of_row_metadata:
  assumes "distinct cols"
  shows "map_of (row_metadata deps cols row) c
           = (case map_of (zip cols row) c of None \<Rightarrow> None
              | Some v \<Rightarrow> if c \<noteq> ''Object_Text'' \<and> notna deps v
                          then Some (py_str deps v) else None)"
proof -
  have d: "distinct (map fst (zip cols row))"
    using assms by (simp add: map_fst_zip_take)
  show ?thesis
    unfolding row_metadata_def
    by (simp only: dict_of_distinct [OF distinct_keys_filter_map [OF d]]
          map_of_filter_map [OF d, where P = "\<lambda>k v. k \<noteq> ''Object_Text'' \<and> notna deps v"])
qed




lemma records_after_update:
  "store w' = AList.update name recs s \<Longrightarrow> collection_records w' name = recs"
  by (simp add: collection_records_def update_conv')

lemma count_is_length: "collection_count w name = length (collection_records w name)"
  by (simp add: collection_count_def collection_records_def split: option.splits)

lemma demo_upload_parts:
  "upload_file demo_deps parts_file empty_world = (Return parts_response, loaded_world)"
  by code_simp

lemma demo_uuid4_inj: "inj (uuid4 demo_deps)"
  by (rule injI) (simp add: demo_deps_def replicate_eq_replicate)

lemma demo_upload_more:
  "upload_file demo_deps more_parts_file loaded_world = (Return more_response, reloaded_world)"
  by code_simp

lemma join_append:
  "xs \<noteq> [] \<Longrightarrow> ys \<noteq> [] \<Longrightarrow> join sep (xs @ ys) = join sep xs @ sep @ join sep ys"
  by (induction sep xs rule: join.induct) (auto simp: neq_Nil_conv)

lemma join_concat:
  "\<forall>e\<in>set es. e \<noteq> [] \<Longrightarrow> join sep (concat es) = join sep (map (join sep) es)"
proof (induction es)
  case Nil
  then show ?case by simp
next
  case (Cons e es)
  show ?case
  proof (cases es)
    case Nil
    then show ?thesis by simp
  next
    case (Cons e' es')
    with Cons.prems have "e \<noteq> []" "concat es \<noteq> []" by auto
    then show ?thesis
      using Cons.IH Cons.prems by (simp add: join_append Cons)
  qed
qed

lemma join_nonempty: "join sep (x # xs) = [] \<Longrightarrow> x = []"
  by (cases xs) auto

lemma metadata_str_empty_iff:
  "metadata_str m = [] \<longleftrightarrow> filter (\<lambda>(k, v). k \<noteq> ''Object_Text'') m = []"
proof (cases "filter (\<lambda>(k, v). k \<noteq> ''Object_Text'') m")
  case Nil
  then show ?thesis by (simp add: metadata_str_def)
next
  case (Cons kv rest)
  obtain k v where "kv = (k, v)" by (cases kv)
  with Cons show ?thesis
    by (auto simp: metadata_str_def dest: join_nonempty)
qed

lemma format_loop_Cons:
  "format_loop deps i (r # rs) acc = format_loop deps (Suc i) rs (acc @ entry_parts deps (i, r))"
proof -
  obtain doc md distance where r: "r = (doc, md, distance)" by (cases r) auto
  show ?thesis
    by (cases md) (simp_all add: r entry_parts_def Let_def)
qed

lemma format_loop_concat:
  "format_loop deps i rs acc
     = acc @ concat (map (entry_parts deps) (zip [i..<i + length rs] rs))"
proof (induction rs arbitrary: i acc)
  case Nil
  then show ?case by simp
next
  case (Cons r rs)
  have z: "zip [i..<i + length (r # rs)] (r # rs) = (i, r) # zip [Suc i..<Suc i + length rs] rs"
    by (simp add: upt_conv_Cons del: upt_Suc)
  show ?case
    by (subst z) (simp add: format_loop_Cons Cons.IH del: format_loop.simps upt_Suc)
qed

lemma join_entry_parts:
  "join newline (entry_parts deps (i, r)) = entry_text deps (i + 1) r"
proof -
  obtain doc md distance where r: "r = (doc, md, distance)" by (cases r) auto
  show ?thesis
  proof (cases md)
    case None
    then show ?thesis
      by (simp add: r entry_parts_def entry_text_def result_header_def)
  next
    case (Some m)
    show ?thesis
    proof (cases "filter (\<lambda>(k, v). k \<noteq> ''Object_Text'') m = []")
      case True
      then have "metadata_str m = []" by (simp add: metadata_str_empty_iff)
      with True show ?thesis
        by (simp add: r Some entry_parts_def entry_text_def result_header_def)
    next
      case False
      then have ne: "metadata_str m \<noteq> []" by (simp add: metadata_str_empty_iff)
      from False have m: "m \<noteq> []" by auto
      show ?thesis
        unfolding r Some entry_parts_def entry_text_def result_header_def Let_def
        using ne m False by (simp add: metadata_str_def)
    qed
  qed
qed

lemma format_loop_spec:
  "join newline (format_loop deps 0 rs []) = spec_response deps rs"
proof -
  have ne: "\<forall>e\<in>set (map (entry_parts deps) (zip [0..<length rs] rs)). e \<noteq> []"
    by (auto simp: entry_parts_def)
  have "join newline (format_loop deps 0 rs [])
          = join newline (map (join newline) (map (entry_parts deps) (zip [0..<length rs] rs)))"
    using join_concat [OF ne] by (simp add: format_loop_concat)
  also have "\<dots> = spec_response deps rs"
  proof -
    have "\<And>x. join newline (entry_parts deps x) = (\<lambda>(i, r). entry_text deps (i + 1) r) x"
      by (case_tac x) (simp add: join_entry_parts)
    then show ?thesis by (simp add: spec_response_def o_def)
  qed
  finally show ?thesis .
qed

lemma format_results_spec:
  assumes "res_documents results = docs # ds" and "docs \<noteq> []"
      and "res_metadatas results = mds # ms"
      and "res_distances results = dists # dd"
  shows "format_results deps results = Inr (spec_response deps (zip docs (zip mds dists)))"
  using assms by (simp add: format_results_def first_def format_loop_spec)

section \<open>Collection naming\<close>

text \<open>
  Claim C5. The derived collection name is the filename with its trailing \<open>.csv\<close>
  removed, lower-cased, spaces replaced by underscores, the interior kept. The code
  removes every occurrence of \<open>.csv\<close>: for the accepted filename
  \<open>data.csv.backup.csv\<close> it derives \<open>data.backup\<close>, where stripping the extension
  gives \<open>data.csv.backup\<close>.
\<close>

theorem derive_collection_name_interior_csv:
  "endswith ''data.csv.backup.csv'' ''.csv''
   \<and> derive_collection_name ''data.csv.backup.csv'' = ''data.backup''
   \<and> strip_extension_name ''data.csv.backup.csv'' = ''data.csv.backup''"
  by (simp add: endswith_def derive_collection_name_def strip_extension_name_def
        replace_def lower_def lower_char_def)

section \<open>Upload of a table without the text column\<close>

lemma upload_missing_column_general:
  assumes "endswith (filename file) ''.csv''"
      and "embedding_model deps = Some encode"
      and "parsed file = Inr df"
      and "''Object_Text'' \<notin> set (columns df)"
  shows "upload_file_with batch_size deps file w =
           (Raise (HTTPException 500 (''Error processing file: ''
              @ str_exc (HTTPException 400
                  (''CSV must contain '' @ quoted ''Object_Text'' @ '' column'')))), w)"
  using assms by (simp add: upload_file_with_def upload_try_def)

text \<open>
  Claim C1. A file named \<open>.csv\<close> whose table lacks the column \<open>Object_Text\<close> is
  refused with a 400-class error and nothing is written. On the code the exception of
  status 400 is raised inside the \<^verbatim>\<open>try\<close> and caught by its \<^verbatim>\<open>except Exception\<close>,
  which raises status 500: for the file \<open>parts.csv\<close> with the one column \<open>Part\<close> the
  answer has status 500. The store is left as it was.
\<close>

theorem upload_missing_column_status:
  "endswith (filename no_text_file) ''.csv''
   \<and> http_status (fst (upload_file demo_deps no_text_file empty_world)) = 500
   \<and> snd (upload_file demo_deps no_text_file empty_world) = empty_world"
  by (simp add: upload_file_def upload_file_with_def upload_try_def no_text_file_def
        demo_deps_def endswith_def)


section \<open>The batch size\<close>




section \<open>Uploading twice under one collection name\<close>

text \<open>
  Claim C3. Two successful uploads, one after the other, whose filenames derive the
  same collection name: the second appends. The records of the collection after the
  first upload are a prefix of its records after the second, and the count after both
  is the count before plus the N rows of the first table plus the M rows of the
  second; for a collection that was not there before, N + M.
\<close>

theorem reupload_appends:
  assumes "upload_file deps f1 w = (Return r1, w1)"
      and "upload_file deps f2 w1 = (Return r2, w2)"
      and "derive_collection_name (filename f1) = derive_collection_name (filename f2)"
      and "parsed f1 = Inr df1" and "parsed f2 = Inr df2"
  shows "resp_collection_name r1 = derive_collection_name (filename f1)
     \<and> resp_collection_name r2 = resp_collection_name r1
     \<and> collection_records w2 (resp_collection_name r1)
         = collection_records w (resp_collection_name r1)
           @ drop (collection_count w (resp_collection_name r1))
               (collection_records w2 (resp_collection_name r1))
     \<and> take (collection_count w1 (resp_collection_name r1))
          (collection_records w2 (resp_collection_name r1))
         = collection_records w1 (resp_collection_name r1)
     \<and> collection_count w1 (resp_collection_name r1)
         = collection_count w (resp_collection_name r1) + length (rows df1)
     \<and> collection_count w2 (resp_collection_name r1)
         = collection_count w (resp_collection_name r1) + length (rows df1) + length (rows df2)
     \<and> (resp_collection_name r1 \<notin> set (map fst (store w)) \<longrightarrow>
          collection_count w2 (resp_collection_name r1) = length (rows df1) + length (rows df2))"
proof -
  let ?name = "derive_collection_name (filename f1)"
  from assms(1) have u1: "upload_file_with 100 deps f1 w = (Return r1, w1)"
    by (simp add: upload_file_def)
  from assms(2) have u2: "upload_file_with 100 deps f2 w1 = (Return r2, w2)"
    by (simp add: upload_file_def)
  obtain new1 where
    n1: "resp_collection_name r1 = ?name"
        "store w1 = AList.update ?name (collection_records w ?name @ new1)
                      (ensure_collection ?name (store w))"
        "map rec_document new1 = map (row_text deps (columns df1)) (rows df1)"
    by (rule upload_Return [OF u1 assms(4)]) (rule that)
  obtain new2 where
    n2: "resp_collection_name r2 = ?name"
        "store w2 = AList.update ?name (collection_records w1 ?name @ new2)
                      (ensure_collection ?name (store w1))"
        "map rec_document new2 = map (row_text deps (columns df2)) (rows df2)"
    by (rule upload_Return [OF u2 assms(5), unfolded assms(3) [symmetric]]) (rule that)
  have l1: "length new1 = length (rows df1)" using n1(3) by (metis length_map)
  have l2: "length new2 = length (rows df2)" using n2(3) by (metis length_map)
  have r1: "collection_records w1 ?name = collection_records w ?name @ new1"
    by (rule records_after_update [OF n1(2)])
  have r2: "collection_records w2 ?name = collection_records w1 ?name @ new2"
    by (rule records_after_update [OF n2(2)])
  have fresh: "?name \<notin> set (map fst (store w)) \<Longrightarrow> collection_records w ?name = []"
    by (simp add: collection_records_def map_of_eq_None_iff [symmetric])
  show ?thesis
    using fresh by (auto simp: n1(1) n2(1) count_is_length r1 r2 l1 l2)
qed

theorem reupload_appends_witness:
  "upload_file demo_deps parts_file empty_world = (Return parts_response, loaded_world)
   \<and> upload_file demo_deps more_parts_file loaded_world = (Return more_response, reloaded_world)
   \<and> derive_collection_name (filename parts_file)
       = derive_collection_name (filename more_parts_file)
   \<and> ''brake_parts'' \<notin> set (map fst (store empty_world))
   \<and> collection_count reloaded_world ''brake_parts'' = 2 + 1"
proof -
  have same: "derive_collection_name (filename parts_file)
                = derive_collection_name (filename more_parts_file)"
    by code_simp
  have p1: "parsed parts_file = Inr parts_table" by (simp add: parts_file_def)
  have p2: "parsed more_parts_file
              = Inr \<lparr>columns = [''Object_Text'', ''Part''],
                     rows = [[Some ''Caliper'', Some ''C7'']]\<rparr>"
    by (simp add: more_parts_file_def)
  have fresh: "''brake_parts'' \<notin> set (map fst (store empty_world))"
    by (simp add: empty_world_def)
  have name: "derive_collection_name (filename parts_file) = ''brake_parts''"
    by code_simp
  have "collection_count reloaded_world ''brake_parts'' = 2 + 1"
    using reupload_appends [OF demo_upload_parts demo_upload_more same p1 p2] fresh
    by (simp add: parts_response_def parts_table_def name)
  with demo_upload_parts demo_upload_more same fresh show ?thesis by simp
qed

section \<open>The record of a row\<close>

text \<open>
  Claim C4. After a successful upload of a table with distinct column names and one
  cell per column, the record stored for row \<open>j\<close> has as document the string of the
  row's \<open>Object_Text\<close> cell; its metadata maps exactly the columns other than
  \<open>Object_Text\<close> whose cell is not null, each to the string of the cell; its
  identifier is the next one of the generator, one call per row, so that the
  identifiers of the upload are distinct when the generator never repeats a value.
\<close>

theorem row_transformation:
  assumes "upload_file deps file w = (Return r, w')"
      and "parsed file = Inr df"
      and "distinct (columns df)"
      and "\<forall>row\<in>set (rows df). length row = length (columns df)"
      and "j < length (rows df)"
  shows "(\<exists>v. map_of (zip (columns df) (rows df ! j)) ''Object_Text'' = Some v
            \<and> rec_document (collection_records w' (resp_collection_name r)
                 ! (collection_count w (resp_collection_name r) + j)) = py_str deps v)
       \<and> (\<forall>c. map_of (rec_metadata (collection_records w' (resp_collection_name r)
                 ! (collection_count w (resp_collection_name r) + j))) c
              = (case map_of (zip (columns df) (rows df ! j)) c of
                   None \<Rightarrow> None
                 | Some v \<Rightarrow> if c \<noteq> ''Object_Text'' \<and> notna deps v
                             then Some (py_str deps v) else None))
       \<and> rec_id (collection_records w' (resp_collection_name r)
                 ! (collection_count w (resp_collection_name r) + j))
           = uuid4 deps (uuid_count w + j)
       \<and> uuid_count w' = uuid_count w + length (rows df)
       \<and> (inj (uuid4 deps) \<longrightarrow>
            distinct (map rec_id (drop (collection_count w (resp_collection_name r))
                       (collection_records w' (resp_collection_name r)))))"
proof -
  let ?name = "derive_collection_name (filename file)"
  let ?old = "collection_records w ?name"
  let ?row = "rows df ! j"
  from assms(1) have u: "upload_file_with 100 deps file w = (Return r, w')"
    by (simp add: upload_file_def)
  obtain new where
    f: "''Object_Text'' \<in> set (columns df)"
       "resp_collection_name r = ?name"
       "store w' = AList.update ?name (?old @ new) (ensure_collection ?name (store w))"
       "map rec_document new = map (row_text deps (columns df)) (rows df)"
       "map rec_metadata new = map (row_metadata deps (columns df)) (rows df)"
       "map rec_id new = map (uuid4 deps) [uuid_count w ..< uuid_count w + length (rows df)]"
       "uuid_count w' = uuid_count w + length (rows df)"
    by (rule upload_Return [OF u assms(2)]) (rule that)
  have len: "length new = length (rows df)" using f(4) by (metis length_map)
  have recs: "collection_records w' ?name = ?old @ new"
    by (rule records_after_update [OF f(3)])
  have at: "collection_records w' ?name ! (collection_count w ?name + j) = new ! j"
    by (simp add: recs count_is_length)
  have rest: "drop (collection_count w ?name) (collection_records w' ?name) = new"
    by (simp add: recs count_is_length)
  have jn: "j < length new" using assms(5) len by simp
  have doc: "rec_document (new ! j) = row_text deps (columns df) ?row"
    using arg_cong [OF f(4), of "\<lambda>xs. xs ! j"] jn assms(5) by simp
  have md: "rec_metadata (new ! j) = row_metadata deps (columns df) ?row"
    using arg_cong [OF f(5), of "\<lambda>xs. xs ! j"] jn assms(5) by simp
  have rid: "rec_id (new ! j) = uuid4 deps (uuid_count w + j)"
    using arg_cong [OF f(6), of "\<lambda>xs. xs ! j"] jn assms(5) by simp
  have "length ?row = length (columns df)" using assms(4,5) by simp
  from has_text_cell [OF f(1) this] obtain v where
    v: "map_of (zip (columns df) ?row) ''Object_Text'' = Some v" by blast
  have 1: "rec_document (new ! j) = py_str deps v" by (simp add: doc row_text_def v)
  have 2: "\<forall>c. map_of (rec_metadata (new ! j)) c
              = (case map_of (zip (columns df) ?row) c of
                   None \<Rightarrow> None
                 | Some v \<Rightarrow> if c \<noteq> ''Object_Text'' \<and> notna deps v
                             then Some (py_str deps v) else None)"
    by (simp add: md map_of_row_metadata [OF assms(3)])
  have 3: "inj (uuid4 deps) \<longrightarrow> distinct (map rec_id new)"
    by (simp add: f(6) distinct_map inj_on_def inj_def)
  show ?thesis
    unfolding f(2) at rest
  proof (intro conjI)
    show "\<exists>v. map_of (zip (columns df) ?row) ''Object_Text'' = Some v
            \<and> rec_document (new ! j) = py_str deps v"
      using v 1 by simp
  qed (rule 2 rid f(7) 3)+
qed

theorem row_transformation_witness:
  "upload_file demo_deps parts_file empty_world = (Return parts_response, loaded_world)
   \<and> parsed parts_file = Inr parts_table
   \<and> distinct (columns parts_table)
   \<and> list_all (\<lambda>row. length row = length (columns parts_table)) (rows parts_table)
   \<and> (0::nat) < length (rows parts_table)
   \<and> inj (uuid4 demo_deps)
   \<and> rec_document (collection_records loaded_world ''brake_parts'' ! 0) = ''Brake pad model X123''
   \<and> map_of (rec_metadata (collection_records loaded_world ''brake_parts'' ! 0)) ''Part''
       = Some ''X123''
   \<and> map_of (rec_metadata (collection_records loaded_world ''brake_parts'' ! 0)) ''Note'' = None
   \<and> map_of (rec_metadata (collection_records loaded_world ''brake_parts'' ! 0)) ''Object_Text''
       = None
   \<and> rec_id (collection_records loaded_world ''brake_parts'' ! 0) = uuid4 demo_deps 0
   \<and> distinct (map rec_id (collection_records loaded_world ''brake_parts''))"
proof -
  have h2: "parsed parts_file = Inr parts_table" by (simp add: parts_file_def)
  have h3: "distinct (columns parts_table)" by (simp add: parts_table_def)
  have h4: "\<forall>row\<in>set (rows parts_table). length row = length (columns parts_table)"
    by (simp add: parts_table_def)
  have h5: "(0::nat) < length (rows parts_table)" by (simp add: parts_table_def)
  have c0: "collection_count empty_world ''brake_parts'' = 0"
    by (simp add: collection_count_def empty_world_def)
  have cells: "map_of (zip (columns parts_table) (rows parts_table ! 0)) ''Object_Text''
                  = Some (Some ''Brake pad model X123'')"
       "map_of (zip (columns parts_table) (rows parts_table ! 0)) ''Part'' = Some (Some ''X123'')"
       "map_of (zip (columns parts_table) (rows parts_table ! 0)) ''Note'' = Some None"
    by (simp_all add: parts_table_def)
  have fns: "py_str demo_deps (Some ''Brake pad model X123'') = ''Brake pad model X123''"
            "py_str demo_deps (Some ''X123'') = ''X123''"
            "notna demo_deps (Some ''X123'')" "\<not> notna demo_deps None"
    by (simp_all add: demo_deps_def)
  have name: "resp_collection_name parts_response = ''brake_parts''"
    by (simp add: parts_response_def)
  note T = row_transformation [OF demo_upload_parts h2 h3 h4 h5]
  from T have A: "\<exists>v. map_of (zip (columns parts_table) (rows parts_table ! 0)) ''Object_Text''
                        = Some v
             \<and> rec_document (collection_records loaded_world ''brake_parts'' ! 0)
                 = py_str demo_deps v"
    by (simp add: name c0)
  from T have B: "\<And>c. map_of (rec_metadata (collection_records loaded_world ''brake_parts'' ! 0)) c
              = (case map_of (zip (columns parts_table) (rows parts_table ! 0)) c of
                   None \<Rightarrow> None
                 | Some v \<Rightarrow> if c \<noteq> ''Object_Text'' \<and> notna demo_deps v
                             then Some (py_str demo_deps v) else None)"
    by (simp add: name c0)
  from T have C: "rec_id (collection_records loaded_world ''brake_parts'' ! 0)
                    = uuid4 demo_deps (uuid_count empty_world + 0)"
    by (simp add: name c0)
  from T demo_uuid4_inj
  have D: "distinct (map rec_id (collection_records loaded_world ''brake_parts''))"
    by (simp add: name c0)
  have "rec_document (collection_records loaded_world ''brake_parts'' ! 0) = ''Brake pad model X123''
   \<and> map_of (rec_metadata (collection_records loaded_world ''brake_parts'' ! 0)) ''Part''
       = Some ''X123''
   \<and> map_of (rec_metadata (collection_records loaded_world ''brake_parts'' ! 0)) ''Note'' = None
   \<and> map_of (rec_metadata (collection_records loaded_world ''brake_parts'' ! 0)) ''Object_Text''
       = None
   \<and> rec_id (collection_records loaded_world ''brake_parts'' ! 0) = uuid4 demo_deps 0
   \<and> distinct (map rec_id (collection_records loaded_world ''brake_parts''))"
    using A C D by (simp add: B cells fns empty_world_def)
  with demo_upload_parts h2 h3 h4 h5 demo_uuid4_inj show ?thesis by (simp add: list_all_iff)
qed

section \<open>Uploading a table without rows\<close>

text \<open>
  Claim C10. Every file named \<open>.csv\<close> whose table has the column \<open>Object_Text\<close> and
  no rows is uploaded with success and its collection exists afterwards. The store
  refuses the name \<open>a\<close> that the filename \<open>a.csv\<close> derives: \<^verbatim>\<open>create_collection\<close>
  raises, the bare \<^verbatim>\<open>except\<close> asks for the collection, which is not there, and the
  upload is answered with status 500, the store without a collection. With the
  embedding model not loaded the upload is answered with status 500 too.
\<close>

theorem upload_header_only_refused_name:
  "endswith (filename short_name_file) ''.csv''
   \<and> parsed short_name_file = Inr \<lparr>columns = [''Object_Text'', ''Part''], rows = []\<rparr>
   \<and> derive_collection_name (filename short_name_file) = ''a''
   \<and> http_status (fst (upload_file demo_deps short_name_file empty_world)) = 500
   \<and> store (snd (upload_file demo_deps short_name_file empty_world)) = []
   \<and> http_status (fst (upload_file unloaded_deps header_only_file empty_world)) = 500"
  by code_simp

text \<open>
  Claim C10, amended. A file named \<open>.csv\<close> whose derived name the store accepts and
  whose table has the column \<open>Object_Text\<close> and no rows is uploaded with success,
  the embedding model being loaded: the response reports the count 0, the only calls
  are the creation of the collection (and the get, when it was there already), none
  to the embedding provider and none adding records, and the derived collection is in
  the store afterwards, its records as before.
\<close>

theorem upload_header_only:
  assumes "endswith (filename file) ''.csv''"
      and "embedding_model deps = Some encode"
      and "parsed file = Inr df"
      and "''Object_Text'' \<in> set (columns df)"
      and "rows df = []"
      and "name_accepted deps (derive_collection_name (filename file))"
  shows "upload_file deps file w =
           (Return \<lparr>resp_collection_name = derive_collection_name (filename file),
                    resp_count = 0,
                    resp_message = ''Successfully uploaded 0 records to collection ''
                      @ quoted (derive_collection_name (filename file))\<rparr>,
            w\<lparr>calls := calls w
                 @ (if derive_collection_name (filename file) \<in> set (map fst (store w))
                    then [CreateCollection (derive_collection_name (filename file)),
                          GetCollection (JStr (derive_collection_name (filename file)))]
                    else [CreateCollection (derive_collection_name (filename file))]),
              store := ensure_collection (derive_collection_name (filename file)) (store w)\<rparr>)
     \<and> derive_collection_name (filename file)
         \<in> set (map fst (store (snd (upload_file deps file w))))
     \<and> collection_count (snd (upload_file deps file w)) (derive_collection_name (filename file))
         = collection_count w (derive_collection_name (filename file))
     \<and> (\<forall>c \<in> set (drop (length (calls w)) (calls (snd (upload_file deps file w)))).
           \<not> is_batch_call c)"
proof -
  let ?name = "derive_collection_name (filename file)"
  let ?w' = "w\<lparr>calls := calls w
                 @ (if ?name \<in> set (map fst (store w))
                    then [CreateCollection ?name, GetCollection (JStr ?name)]
                    else [CreateCollection ?name]),
              store := ensure_collection ?name (store w)\<rparr>"
  have run: "upload_file deps file w =
           (Return \<lparr>resp_collection_name = ?name, resp_count = 0,
                    resp_message = ''Successfully uploaded 0 records to collection ''
                      @ quoted ?name\<rparr>, ?w')"
    using assms(1-5) create_or_get_ok [of deps ?name w] assms(6)
    by (simp add: upload_file_def upload_file_with_def upload_try_def
          batch_loop.simps str_nat.simps digit_char_def Let_def)
  have there: "?name \<in> set (map fst (store ?w'))"
    by (simp add: ensure_collection_def)
  have same: "collection_count ?w' ?name = collection_count w ?name"
    by (simp add: collection_count_def map_of_ensure_collection split: option.splits)
  have quiet: "\<forall>c \<in> set (drop (length (calls w)) (calls ?w')). \<not> is_batch_call c"
    by simp
  show ?thesis
    unfolding run using there same quiet by simp
qed

theorem upload_header_only_witness:
  "endswith (filename header_only_file) ''.csv''
   \<and> embedding_model demo_deps = Some demo_encode
   \<and> parsed header_only_file = Inr \<lparr>columns = [''Object_Text'', ''Part''], rows = []\<rparr>
   \<and> name_accepted demo_deps (derive_collection_name (filename header_only_file))
   \<and> upload_file demo_deps header_only_file empty_world =
        (Return \<lparr>resp_collection_name = ''empty'', resp_count = 0,
           resp_message = ''Successfully uploaded 0 records to collection '' @ quoted ''empty''\<rparr>,
         \<lparr>store = [(''empty'', [])], uuid_count = 0, calls = [CreateCollection ''empty'']\<rparr>)"
proof -
  have h1: "endswith (filename header_only_file) ''.csv''" by code_simp
  have h2: "embedding_model demo_deps = Some demo_encode" by (simp add: demo_deps_def)
  have h3: "parsed header_only_file = Inr \<lparr>columns = [''Object_Text'', ''Part''], rows = []\<rparr>"
    by (simp add: header_only_file_def)
  have name: "derive_collection_name (filename header_only_file) = ''empty''" by code_simp
  have h6: "name_accepted demo_deps (derive_collection_name (filename header_only_file))"
    by code_simp
  from upload_header_only [OF h1 h2 h3 _ _ h6, of empty_world]
  have "upload_file demo_deps header_only_file empty_world =
        (Return \<lparr>resp_collection_name = ''empty'', resp_count = 0,
           resp_message = ''Successfully uploaded 0 records to collection '' @ quoted ''empty''\<rparr>,
         \<lparr>store = [(''empty'', [])], uuid_count = 0, calls = [CreateCollection ''empty'']\<rparr>)"
    by (simp add: name empty_world_def ensure_collection_def)
  with h1 h2 h3 h6 show ?thesis by simp
qed

section \<open>The text of a chat response\<close>

text \<open>
  Claim C6. A chat request with a message, the model loaded, a collection selected
  and a non-empty answer of the store (at most 5 results are asked for): the response
  is the text the specification describes. For each result, in the order of the
  store: the header with the rank counted from 1 and the similarity, 1 - distance
  formatted as a percentage with two decimals, then the document, then, only when the
  metadata without the key \<open>Object_Text\<close> is not empty, one line of its
  \<open>key: value\<close> pairs joined by commas; an empty line between two entries. The
  subtraction and the percent format are the floating-point operations of the
  dependencies.
\<close>

theorem chat_response_format:
  assumes "dict_get (JObj kvs) ''message'' (JStr '''') = Inr msg"
      and "truthy msg"
      and "embedding_model deps = Some encode"
      and "dict_get (JObj kvs) ''collection'' JNull = Inr requested"
      and "store w = (c0, recs0) # others"
      and "(if \<not> truthy requested then JStr c0 else requested) = JStr c"
      and "c \<in> set (map fst (store w))"
      and "encode [msg] = Inr (q # qs)"
      and "nearest deps (collection_records w c) q 5 = Inr results"
      and "res_documents results = docs # ds"
      and "docs \<noteq> []"
      and "res_metadatas results = mds # ms"
      and "res_distances results = dists # dd"
  shows "chat_endpoint deps (Inr (JObj kvs)) w
           = (Return (spec_response deps (zip docs (zip mds dists))),
              w\<lparr>calls := calls w @ [ListCollections, GetCollection (JStr c), Encode [msg],
                                       Query c 5]\<rparr>)"
proof -
  have recs: "\<And>cs. collection_records (w\<lparr>calls := cs\<rparr>) c = collection_records w c"
    by (simp add: collection_records_def)
  have fmt: "format_results deps results = Inr (spec_response deps (zip docs (zip mds dists)))"
    by (rule format_results_spec [OF assms(10-13)])
  have got: "get_collection (JStr c) (w\<lparr>calls := calls w @ [ListCollections]\<rparr>)
               = (Inr c, w\<lparr>calls := calls w @ [ListCollections, GetCollection (JStr c)]\<rparr>)"
    using assms(7) by (simp add: get_collection_def log_call_def)
  have tried: "chat_try deps encode msg requested w
               = (Inr (spec_response deps (zip docs (zip mds dists))),
                  w\<lparr>calls := calls w @ [ListCollections, GetCollection (JStr c), Encode [msg],
                                           Query c 5]\<rparr>)"
    unfolding chat_try_def list_collections_def
    using assms(5,6,8,9) fmt
    by (simp add: got first_def log_call_def recs Let_def)
  show ?thesis
    using assms(1-4) tried by (simp add: chat_endpoint_def)
qed

theorem chat_response_format_witness:
  "truthy (JStr ''X123 brake pad'')
   \<and> embedding_model demo_deps = Some demo_encode
   \<and> ''brake_parts'' \<in> set (map fst (store loaded_world))
   \<and> demo_encode [JStr ''X123 brake pad''] = Inr [0]
   \<and> fst (chat_endpoint demo_deps (Inr (JObj [(''message'', JStr ''X123 brake pad'')]))
            loaded_world)
       = Return (''**Result 1** (Similarity: 75.00%)'' @ newline
                 @ ''Brake pad model X123'' @ newline
                 @ ''Additional info: Part: X123'' @ newline
                 @ newline
                 @ ''**Result 2** (Similarity: 75.00%)'' @ newline
                 @ ''Brake disc'' @ newline
                 @ ''Additional info: Part: Y9, Note: front'' @ newline)"
proof -
  let ?kvs = "[(''message'', JStr ''X123 brake pad'')]"
  let ?docs = "[''Brake pad model X123'', ''Brake disc'']"
  let ?mds = "[Some [(''Part'', ''X123'')], Some [(''Part'', ''Y9''), (''Note'', ''front'')]]"
  let ?dists = "[25, 25 :: nat]"
  let ?results = "\<lparr>res_documents = [?docs], res_metadatas = [?mds], res_distances = [?dists]\<rparr>"
  have h1: "dict_get (JObj ?kvs) ''message'' (JStr []) = Inr (JStr ''X123 brake pad'')"
    by simp
  have h2: "truthy (JStr ''X123 brake pad'')" by simp
  have h3: "embedding_model demo_deps = Some demo_encode" by (simp add: demo_deps_def)
  have h4: "dict_get (JObj ?kvs) ''collection'' JNull = Inr JNull" by simp
  have h5: "store loaded_world
              = (''brake_parts'', collection_records loaded_world ''brake_parts'') # []"
    by (simp add: loaded_world_def collection_records_def)
  have h6: "(if \<not> truthy JNull then JStr ''brake_parts'' else JNull) = JStr ''brake_parts''"
    by simp
  have h7: "''brake_parts'' \<in> set (map fst (store loaded_world))"
    by (simp add: loaded_world_def)
  have h8: "demo_encode [JStr ''X123 brake pad''] = Inr (0 # [])"
    by (simp add: demo_encode_def)
  have h9: "nearest demo_deps (collection_records loaded_world ''brake_parts'') 0 5 = Inr ?results"
    by (simp add: demo_deps_def demo_nearest_def loaded_world_def collection_records_def)
  have h10: "res_documents ?results = ?docs # []" by simp
  have h11: "?docs \<noteq> []" by simp
  have h12: "res_metadatas ?results = ?mds # []" by simp
  have h13: "res_distances ?results = ?dists # []" by simp
  have rendered: "spec_response demo_deps (zip ?docs (zip ?mds ?dists))
       = ''**Result 1** (Similarity: 75.00%)'' @ newline
                 @ ''Brake pad model X123'' @ newline
                 @ ''Additional info: Part: X123'' @ newline
                 @ newline
                 @ ''**Result 2** (Similarity: 75.00%)'' @ newline
                 @ ''Brake disc'' @ newline
                 @ ''Additional info: Part: Y9, Note: front'' @ newline"
    by code_simp
  from chat_response_format [OF h1 h2 h3 h4 h5 h6 h7 h8 h9 h10 h11 h12 h13]
  have "fst (chat_endpoint demo_deps (Inr (JObj ?kvs)) loaded_world)
          = Return (spec_response demo_deps (zip ?docs (zip ?mds ?dists)))"
    by simp
  with h2 h3 h7 h8 show ?thesis by (simp only: rendered)
qed

section \<open>The status of a chat request\<close>

text \<open>
  Claim C7. Every request to \<open>POST /chat\<close> is answered with status 200 and a
  response text. The parsing of the body and the read of the message stand before the
  \<^verbatim>\<open>try\<close>: a body that is a JSON array has no \<open>get\<close>, the exception leaves the
  handler and the status is 500.
\<close>

theorem chat_non_object_body_fails:
  "http_status (fst (chat_endpoint demo_deps (Inr (JArr [])) empty_world)) = 500
   \<and> snd (chat_endpoint demo_deps (Inr (JArr [])) empty_world) = empty_world"
  by (simp add: chat_endpoint_def)

text \<open>
  Claim C7, amended. Every request whose body is a JSON object is answered with
  status 200 and a response text, and an exception raised by the collection lookup,
  the embedding, the store query or the formatting becomes the response text
  \<open>Error searching:\<close> followed by the text of the exception.
\<close>

theorem chat_object_body_answers_200:
  "http_status (fst (chat_endpoint deps (Inr (JObj kvs)) w)) = 200
   \<and> (\<exists>text. fst (chat_endpoint deps (Inr (JObj kvs)) w) = Return text)
   \<and> (\<forall>msg requested encode e w1.
         dict_get (JObj kvs) ''message'' (JStr []) = Inr msg \<and> truthy msg
         \<and> embedding_model deps = Some encode
         \<and> dict_get (JObj kvs) ''collection'' JNull = Inr requested
         \<and> chat_try deps encode msg requested w = (Inl e, w1)
         \<longrightarrow> chat_endpoint deps (Inr (JObj kvs)) w
               = (Return (''Error searching: '' @ str_exc e), w1))"
proof -
  have 1: "\<exists>text. fst (chat_endpoint deps (Inr (JObj kvs)) w) = Return text"
    by (simp add: chat_endpoint_def split: option.splits prod.splits sum.splits)
  then have 2: "http_status (fst (chat_endpoint deps (Inr (JObj kvs)) w)) = 200"
    by auto
  have 3: "\<forall>msg requested encode e w1.
         dict_get (JObj kvs) ''message'' (JStr []) = Inr msg \<and> truthy msg
         \<and> embedding_model deps = Some encode
         \<and> dict_get (JObj kvs) ''collection'' JNull = Inr requested
         \<and> chat_try deps encode msg requested w = (Inl e, w1)
         \<longrightarrow> chat_endpoint deps (Inr (JObj kvs)) w
               = (Return (''Error searching: '' @ str_exc e), w1)"
    by (simp add: chat_endpoint_def)
  from 1 2 3 show ?thesis by blast
qed

theorem chat_object_body_answers_200_witness:
  "chat_try demo_deps demo_encode (JStr ''pads'') (JStr ''nope'') loaded_world
     = (Inl (Error ''Collection nope does not exist''),
        loaded_world\<lparr>calls := calls loaded_world
                        @ [ListCollections, GetCollection (JStr ''nope'')]\<rparr>)
   \<and> chat_endpoint demo_deps
        (Inr (JObj [(''message'', JStr ''pads''), (''collection'', JStr ''nope'')])) loaded_world
       = (Return ''Error searching: Collection nope does not exist'',
          loaded_world\<lparr>calls := calls loaded_world
                          @ [ListCollections, GetCollection (JStr ''nope'')]\<rparr>)"
proof -
  let ?kvs = "[(''message'', JStr ''pads''), (''collection'', JStr ''nope'')]"
  have h1: "dict_get (JObj ?kvs) ''message'' (JStr []) = Inr (JStr ''pads'')" by simp
  have h2: "truthy (JStr ''pads'')" by simp
  have h3: "embedding_model demo_deps = Some demo_encode" by (simp add: demo_deps_def)
  have h4: "dict_get (JObj ?kvs) ''collection'' JNull = Inr (JStr ''nope'')" by simp
  have h5: "chat_try demo_deps demo_encode (JStr ''pads'') (JStr ''nope'') loaded_world
     = (Inl (Error ''Collection nope does not exist''),
        loaded_world\<lparr>calls := calls loaded_world
                        @ [ListCollections, GetCollection (JStr ''nope'')]\<rparr>)"
    by (simp add: chat_try_def list_collections_def get_collection_def log_call_def
          loaded_world_def)
  from chat_object_body_answers_200 [of demo_deps ?kvs loaded_world] h1 h2 h3 h4 h5
  have "chat_endpoint demo_deps (Inr (JObj ?kvs)) loaded_world
       = (Return (''Error searching: '' @ str_exc (Error ''Collection nope does not exist'')),
          loaded_world\<lparr>calls := calls loaded_world
                          @ [ListCollections, GetCollection (JStr ''nope'')]\<rparr>)"
    by blast
  with h5 show ?thesis by simp
qed

section \<open>The preconditions of a chat request\<close>

text \<open>
  Claim C8. The preconditions are checked in the order: message not empty, embedding
  model loaded, a collection exists. An empty message gives its response whatever the
  model and the store are, with no call to the embedding provider or the store; a
  missing model gives its response whatever the store holds, with no call; an empty
  store gives its response after the one call listing the collections. The three
  texts differ.
\<close>

theorem chat_preconditions_in_order:
  assumes "dict_get (JObj kvs) ''message'' (JStr []) = Inr msg"
  shows "(\<not> truthy msg \<longrightarrow>
            chat_endpoint deps (Inr (JObj kvs)) w
              = (Return ''Please provide a message to search.'', w))
       \<and> (truthy msg \<and> embedding_model deps = None \<longrightarrow>
            chat_endpoint deps (Inr (JObj kvs)) w
              = (Return ''Embedding model not loaded. Please check the server logs.'', w))
       \<and> (truthy msg \<and> embedding_model deps \<noteq> None \<and> store w = [] \<longrightarrow>
            chat_endpoint deps (Inr (JObj kvs)) w
              = (Return ''No data collections available. Please upload a CSV file first.'',
                 w\<lparr>calls := calls w @ [ListCollections]\<rparr>))
       \<and> ''Please provide a message to search.''
            \<noteq> ''Embedding model not loaded. Please check the server logs.''
       \<and> ''Please provide a message to search.''
            \<noteq> ''No data collections available. Please upload a CSV file first.''
       \<and> ''Embedding model not loaded. Please check the server logs.''
            \<noteq> ''No data collections available. Please upload a CSV file first.''"
  using assms
  by (auto simp: chat_endpoint_def chat_try_def list_collections_def log_call_def)

theorem chat_preconditions_in_order_witness:
  "chat_endpoint unloaded_deps (Inr (JObj [(''message'', JStr [])])) empty_world
     = (Return ''Please provide a message to search.'', empty_world)
   \<and> chat_endpoint unloaded_deps (Inr (JObj [(''message'', JStr ''pads'')])) empty_world
       = (Return ''Embedding model not loaded. Please check the server logs.'', empty_world)
   \<and> chat_endpoint demo_deps (Inr (JObj [(''message'', JStr ''pads'')])) empty_world
       = (Return ''No data collections available. Please upload a CSV file first.'',
          empty_world\<lparr>calls := calls empty_world @ [ListCollections]\<rparr>)"
proof -
  have a: "dict_get (JObj [(''message'', JStr [])]) ''message'' (JStr []) = Inr (JStr [])"
    by simp
  have b: "dict_get (JObj [(''message'', JStr ''pads'')]) ''message'' (JStr [])
             = Inr (JStr ''pads'')"
    by simp
  have m: "embedding_model unloaded_deps = None" "embedding_model demo_deps \<noteq> None"
    by (simp_all add: unloaded_deps_def demo_deps_def)
  have s: "store empty_world = []" by (simp add: empty_world_def)
  from chat_preconditions_in_order [OF a, of unloaded_deps empty_world]
  have 1: "chat_endpoint unloaded_deps (Inr (JObj [(''message'', JStr [])])) empty_world
     = (Return ''Please provide a message to search.'', empty_world)"
    by simp
  from chat_preconditions_in_order [OF b, of unloaded_deps empty_world] m(1)
  have 2: "chat_endpoint unloaded_deps (Inr (JObj [(''message'', JStr ''pads'')])) empty_world
       = (Return ''Embedding model not loaded. Please check the server logs.'', empty_world)"
    by simp
  from chat_preconditions_in_order [OF b, of demo_deps empty_world] m(2) s
  have 3: "chat_endpoint demo_deps (Inr (JObj [(''message'', JStr ''pads'')])) empty_world
       = (Return ''No data collections available. Please upload a CSV file first.'',
          empty_world\<lparr>calls := calls empty_world @ [ListCollections]\<rparr>)"
    by simp
  from 1 2 3 show ?thesis by simp
qed

text \<open>
  Claim C9. A body without the key \<open>message\<close> is treated as one with the empty
  message: the same response, the state unchanged, so no call to the embedding
  provider or the store.
\<close>

theorem chat_without_message_key:
  assumes "map_of kvs ''message'' = None"
  shows "chat_endpoint deps (Inr (JObj kvs)) w
           = (Return ''Please provide a message to search.'', w)
       \<and> chat_endpoint deps (Inr (JObj kvs)) w
           = chat_endpoint deps (Inr (JObj ((''message'', JStr []) # kvs))) w"
  using assms by (simp add: chat_endpoint_def)

theorem chat_without_message_key_witness:
  "map_of [(''collection'', JStr ''brake_parts'')] ''message'' = None
   \<and> chat_endpoint demo_deps (Inr (JObj [(''collection'', JStr ''brake_parts'')])) loaded_world
       = (Return ''Please provide a message to search.'', loaded_world)"
proof -
  have h: "map_of [(''collection'', JStr ''brake_parts'')] ''message'' = None" by simp
  from chat_without_message_key [OF h, of demo_deps loaded_world] h show ?thesis by simp
qed

end
